theory Spec2Isabelle
  imports Main
begin

section \<open>The leveled logger of \<^verbatim>\<open>src/Logger.ts\<close>\<close>

text \<open>
  The repository is one TypeScript file: the numeric enum \<^verbatim>\<open>LoggerLevel\<close>, the function
  \<^verbatim>\<open>logger_level_color\<close> and the class \<^verbatim>\<open>Logger\<close> with the static field
  \<^verbatim>\<open>Logger.minimum\<close>. The embedding keeps the source's names. What the code takes from
  its surroundings is a parameter of the model: the clock, the colour functions of the
  imported \<^verbatim>\<open>Colors\<close> module and the behaviour of the sinks.
\<close>

subsection \<open>Levels and colours\<close>

text \<open>
  \<^verbatim>\<open>enum LoggerLevel { Trace, Info, Warn, Error, Fatal }\<close> is a numeric enum: its members
  are the numbers 0 to 4, they are compared with \<^verbatim>\<open>>\<close> as numbers, \<^verbatim>\<open>!l\<close> is true for the
  member 0, and a variable of the enum's type can hold any other number at run time.
  A level is therefore an integer, not a five-element datatype.
\<close>

type_synonym LoggerLevel = int

definition Trace :: LoggerLevel where "Trace = 0"
definition Info :: LoggerLevel where "Info = 1"
definition Warn :: LoggerLevel where "Warn = 2"
definition Error :: LoggerLevel where "Error = 3"
definition Fatal :: LoggerLevel where "Fatal = 4"

text \<open>
  \<^verbatim>\<open>LoggerLevel[l]\<close> inside the template literal of line 149: the reverse mapping of the
  enum gives the member's name, and \<^verbatim>\<open>undefined\<close> for any other number, which the template
  literal prints as the text \<^verbatim>\<open>undefined\<close>.
\<close>

definition LoggerLevel_name :: "LoggerLevel \<Rightarrow> string" where
  "LoggerLevel_name l =
     (if l = Trace then ''Trace''
      else if l = Info then ''Info''
      else if l = Warn then ''Warn''
      else if l = Error then ''Error''
      else if l = Fatal then ''Fatal''
      else ''undefined'')"

text \<open>The functions of the \<^verbatim>\<open>Colors\<close> module that the source names (lines 33 to 38).\<close>

datatype Color = green | brightBlue | yellow | red | brightRed | white

text \<open>\<^verbatim>\<open>logger_level_color\<close>, lines 30 to 40: a \<^verbatim>\<open>switch\<close> with a \<^verbatim>\<open>default\<close> branch.\<close>

definition logger_level_color :: "LoggerLevel \<Rightarrow> Color" where
  "logger_level_color l =
     (if l = Trace then green
      else if l = Info then brightBlue
      else if l = Warn then yellow
      else if l = Error then red
      else if l = Fatal then brightRed
      else white)"

subsection \<open>Sinks, instances, the global threshold\<close>

text \<open>
  A \<^verbatim>\<open>Deno.Writer\<close> is identified by what it is: the two standard streams, or any other
  resource (a file handle) by its number.
\<close>

datatype Writer = Deno_stdout | Deno_stderr | Resource nat

text \<open>The private fields of a \<^verbatim>\<open>Logger\<close> (lines 45 to 47); \<^verbatim>\<open>_ostream\<close> is optional.\<close>

record Logger =
  level :: LoggerLevel
  prefix :: string
  ostream :: "Writer option"

text \<open>
  The state outside the instances: the static field \<^verbatim>\<open>Logger.minimum\<close> (line 43) and,
  to observe the output, the buffers that the sinks have accepted so far, in order.
  Strings are the bytes of their UTF-8 encoding, which is what \<^verbatim>\<open>encoder.encode\<close> hands
  to the sink.
\<close>

record World =
  minimum :: LoggerLevel
  written :: "(Writer \<times> string) list"

text \<open>\<^verbatim>\<open>public static minimum: LoggerLevel = LoggerLevel.Trace\<close>; nothing is written yet.\<close>

definition initial_World :: World where
  "initial_World = \<lparr>minimum = Trace, written = []\<rparr>"

text \<open>
  What a call reads from its surroundings: the text of \<^verbatim>\<open>new Date().toUTCString()\<close>,
  what each function of the \<^verbatim>\<open>Colors\<close> module does to a text, and whether a sink
  accepts a write or rejects it.
\<close>

record Runtime =
  utc_now :: string
  Colors :: "Color \<Rightarrow> string \<Rightarrow> string"
  accepts :: "Writer \<Rightarrow> bool"

datatype error = SinkWriteFailure

text \<open>
  \<^verbatim>\<open>await writer.write(bytes)\<close>: the sink takes the buffer, or the promise rejects and
  the rejection reaches the caller of \<^verbatim>\<open>log\<close>.
\<close>

definition writer_write :: "Runtime \<Rightarrow> Writer \<Rightarrow> string \<Rightarrow> World \<Rightarrow> (error + unit) \<times> World" where
  "writer_write rt writer bytes w =
     (if accepts rt writer
      then (Inr (), w\<lparr>written := written w @ [(writer, bytes)]\<rparr>)
      else (Inl SinkWriteFailure, w))"

subsection \<open>The class \<^verbatim>\<open>Logger\<close>\<close>

text \<open>
  Every method takes the instance and the world and returns both, so that what a method
  leaves alone is a statement about its result. The constructor (lines 55 to 59): a
  parameter that is left out takes its default.
\<close>

definition constructor ::
  "LoggerLevel option \<Rightarrow> string option \<Rightarrow> Writer option \<Rightarrow> World \<Rightarrow> Logger \<times> World" where
  "constructor lv pf os w =
     (\<lparr>level = (case lv of None \<Rightarrow> Info | Some v \<Rightarrow> v),
       prefix = (case pf of None \<Rightarrow> ''None'' | Some p \<Rightarrow> p),
       ostream = os\<rparr>, w)"

text \<open>The accessors (lines 65 to 75).\<close>

definition get_prefix :: "Logger \<Rightarrow> string" where
  "get_prefix this = prefix this"

definition get_level :: "Logger \<Rightarrow> LoggerLevel" where
  "get_level this = level this"

definition set_level :: "LoggerLevel \<Rightarrow> Logger \<Rightarrow> World \<Rightarrow> Logger \<times> World" where
  "set_level l this w = (this\<lparr>level := l\<rparr>, w)"

text \<open>
  Lines 127 to 129, \<^verbatim>\<open>if (!l) { l = this._level; }\<close>: the test is JavaScript's
  falsiness, true for a missing argument and for the number 0.
\<close>

definition effective_level :: "Logger \<Rightarrow> LoggerLevel option \<Rightarrow> LoggerLevel" where
  "effective_level this l =
     (case l of
        None \<Rightarrow> level this
      | Some v \<Rightarrow> if v = 0 then level this else v)"

text \<open>
  Lines 139 to 147. The source has two statements in a row: an \<^verbatim>\<open>if\<close> on
  \<^verbatim>\<open>this._ostream\<close>, then an \<^verbatim>\<open>if\<close>/\<^verbatim>\<open>else\<close> on the level that assigns
  \<^verbatim>\<open>writer\<close> in both branches.
\<close>

definition select_writer :: "Logger \<Rightarrow> LoggerLevel \<Rightarrow> Writer" where
  "select_writer this l =
     (let writer = (case ostream this of Some os \<Rightarrow> Some os | None \<Rightarrow> None);
          writer = (if l = Fatal \<or> l = Error then Deno_stderr else Deno_stdout)
      in writer)"

text \<open>
  The literal between the tag and the message in line 149: a closing parenthesis, a
  space, the bytes C3 82 C2 BB of the source file, a space.
\<close>

definition closing_separator :: string where
  "closing_separator = '') '' @ [CHR 0xC3, CHR 0x82, CHR 0xC2, CHR 0xBB] @ '' ''"

text \<open>The template literal of line 149.\<close>

definition format_line :: "Runtime \<Rightarrow> Logger \<Rightarrow> LoggerLevel \<Rightarrow> string \<Rightarrow> string" where
  "format_line rt this l m =
     utc_now rt @ '' : (''
       @ Colors rt (logger_level_color l) (LoggerLevel_name l @ ''@'' @ get_prefix this)
       @ closing_separator @ m @ [CHR 0x0A]"

text \<open>\<^verbatim>\<open>log\<close>, lines 126 to 150.\<close>

definition log ::
  "Runtime \<Rightarrow> string \<Rightarrow> LoggerLevel option \<Rightarrow> Logger \<Rightarrow> World \<Rightarrow> (error + unit) \<times> Logger \<times> World" where
  "log rt m l this w =
     (let l = effective_level this l in
      if minimum w > l then (Inr (), this, w)
      else
        let writer = select_writer this l;
            (r, w') = writer_write rt writer (format_line rt this l m) w
        in (r, this, w'))"

text \<open>The convenience methods (lines 85 to 119) await \<^verbatim>\<open>log\<close> with a fixed level.\<close>

definition trace :: "Runtime \<Rightarrow> string \<Rightarrow> Logger \<Rightarrow> World \<Rightarrow> (error + unit) \<times> Logger \<times> World" where
  "trace rt m this w = log rt m (Some Trace) this w"

definition info :: "Runtime \<Rightarrow> string \<Rightarrow> Logger \<Rightarrow> World \<Rightarrow> (error + unit) \<times> Logger \<times> World" where
  "info rt m this w = log rt m (Some Info) this w"

definition warn :: "Runtime \<Rightarrow> string \<Rightarrow> Logger \<Rightarrow> World \<Rightarrow> (error + unit) \<times> Logger \<times> World" where
  "warn rt m this w = log rt m (Some Warn) this w"

definition error :: "Runtime \<Rightarrow> string \<Rightarrow> Logger \<Rightarrow> World \<Rightarrow> (error + unit) \<times> Logger \<times> World" where
  "error rt m this w = log rt m (Some Error) this w"

definition fatal :: "Runtime \<Rightarrow> string \<Rightarrow> Logger \<Rightarrow> World \<Rightarrow> (error + unit) \<times> Logger \<times> World" where
  "fatal rt m this w = log rt m (Some Fatal) this w"

subsection \<open>The effective level of the specification\<close>

text \<open>
  The specification defines the effective level of a call as the level override if one
  is provided, and the level of the instance otherwise. This definition follows those
  words and not lines 127 to 129; it only says what the specification expects of a call.
\<close>

definition spec_effective_level :: "Logger \<Rightarrow> LoggerLevel option \<Rightarrow> LoggerLevel" where
  "spec_effective_level this l = (case l of None \<Rightarrow> level this | Some v \<Rightarrow> v)"

subsection \<open>Reading a line back\<close>





subsection \<open>A concrete runtime\<close>

text \<open>
  For concrete runs, the \<^verbatim>\<open>Colors\<close> parameter is instantiated with the SGR escape
  sequences that a terminal colour library puts around a text (foreground code, text,
  code 39 to reset the foreground), and the reader's strip function with the removal of
  every sequence from the escape byte to the next \<^verbatim>\<open>m\<close>.
\<close>

definition ansi_Colors :: "Color \<Rightarrow> string \<Rightarrow> string" where
  "ansi_Colors c s =
     [CHR 0x1B] @ ''[''
       @ (case c of green \<Rightarrow> ''32'' | brightBlue \<Rightarrow> ''94'' | yellow \<Rightarrow> ''33''
                  | red \<Rightarrow> ''31'' | brightRed \<Rightarrow> ''91'' | white \<Rightarrow> ''37'')
       @ ''m'' @ s @ [CHR 0x1B] @ ''[39m''"



definition example_Runtime :: Runtime where
  "example_Runtime =
     \<lparr>utc_now = ''Wed, 01 Jan 2020 00:00:00 GMT'',
      Colors = ansi_Colors,
      accepts = (\<lambda>writer. True)\<rparr>"

text \<open>A world whose threshold has been assigned: \<^verbatim>\<open>Logger.minimum = l\<close>.\<close>

definition World_with_minimum :: "LoggerLevel \<Rightarrow> World" where
  "World_with_minimum l = initial_World\<lparr>minimum := l\<rparr>"


text \<open>The same runtime with colour switched off: every colour function returns its text.\<close>

definition uncoloured_Runtime :: Runtime where
  "uncoloured_Runtime = example_Runtime\<lparr>Colors := (\<lambda>c s. s)\<rparr>"

subsection \<open>Basic facts about \<^verbatim>\<open>log\<close>\<close>

lemmas LoggerLevel_defs = Trace_def Info_def Warn_def Error_def Fatal_def

lemmas example_defs =
  example_Runtime_def ansi_Colors_def initial_World_def World_with_minimum_def
  effective_level_def select_writer_def format_line_def LoggerLevel_name_def
  logger_level_color_def get_prefix_def closing_separator_def writer_write_def
  log_def LoggerLevel_defs

lemma select_writer_by_level:
  "select_writer this l = (if l = Fatal \<or> l = Error then Deno_stderr else Deno_stdout)"
  by (simp add: select_writer_def)

lemma log_suppressed:
  "minimum w > effective_level this l \<Longrightarrow> log rt m l this w = (Inr (), this, w)"
  by (simp add: log_def)

lemma log_not_suppressed:
  "\<not> minimum w > effective_level this l \<Longrightarrow>
     log rt m l this w =
       (fst (writer_write rt (select_writer this (effective_level this l))
               (format_line rt this (effective_level this l) m) w),
        this,
        snd (writer_write rt (select_writer this (effective_level this l))
               (format_line rt this (effective_level this l) m) w))"
  by (simp add: log_def Let_def split: prod.splits)

lemma World_written_grows: "w\<lparr>written := written w @ [x]\<rparr> \<noteq> w"
proof
  assume "w\<lparr>written := written w @ [x]\<rparr> = w"
  then have "written (w\<lparr>written := written w @ [x]\<rparr>) = written w" by simp
  then show False by simp
qed

lemma writer_write_changes: "writer_write rt writer bytes w \<noteq> (Inr (), w)"
  by (simp add: writer_write_def World_written_grows)

text \<open>
  A call comes back as the silent no-op exactly when the threshold is above the level
  that lines 127 to 129 resolve.
\<close>

lemma log_noop_iff:
  "(log rt m l this w = (Inr (), this, w)) = (minimum w > effective_level this l)"
proof (cases "minimum w > effective_level this l")
  case True
  then show ?thesis by (simp add: log_suppressed)
next
  case False
  have "writer_write rt (select_writer this (effective_level this l))
          (format_line rt this (effective_level this l) m) w \<noteq> (Inr (), w)"
    by (rule writer_write_changes)
  then show ?thesis
    using False by (auto simp: log_not_suppressed [OF False] prod_eq_iff)
qed

lemma log_written:
  "written (snd (snd (log rt m l this w))) =
     (if minimum w > effective_level this l
         \<or> \<not> accepts rt (select_writer this (effective_level this l))
      then written w
      else written w @ [(select_writer this (effective_level this l),
                         format_line rt this (effective_level this l) m)])"
  by (simp add: log_def Let_def writer_write_def split: prod.splits)

lemma log_result:
  "fst (log rt m l this w) =
     (if minimum w > effective_level this l
         \<or> accepts rt (select_writer this (effective_level this l))
      then Inr () else Inl SinkWriteFailure)"
  by (simp add: log_def Let_def writer_write_def split: prod.splits)

lemma log_frame:
  "fst (snd (log rt m l this w)) = this
     \<and> minimum (snd (snd (log rt m l this w))) = minimum w"
  by (simp add: log_def Let_def writer_write_def split: prod.splits)

text \<open>Whatever the instance holds in \<^verbatim>\<open>_ostream\<close>, a call writes to a standard stream.\<close>

lemma log_writes_to_standard_stream:
  "set (map fst (written (snd (snd (log rt m l this w)))))
     \<subseteq> set (map fst (written w)) \<union> {Deno_stdout, Deno_stderr}"
  by (auto simp: log_written select_writer_by_level)

subsection \<open>Suppression\<close>

text \<open>
  C6. The specification: a call whose effective level, the override if one is given, is
  strictly below the global minimum returns at once, writes nothing and changes nothing.
  The code at \<^verbatim>\<open>log("ready", Trace)\<close> on a logger of level Info under the global
  minimum Info: the override Trace is below the minimum, and yet the call is not the
  no-op, because \<^verbatim>\<open>!l\<close> holds for Trace and the level becomes Info; one line tagged
  \<^verbatim>\<open>Info@None\<close> goes to the standard output.
\<close>

theorem log_Trace_override_not_suppressed:
  "spec_effective_level \<lparr>level = Info, prefix = ''None'', ostream = None\<rparr> (Some Trace)
       < minimum (World_with_minimum Info)
     \<and> log example_Runtime ''ready'' (Some Trace)
         \<lparr>level = Info, prefix = ''None'', ostream = None\<rparr> (World_with_minimum Info)
       = (Inr (), \<lparr>level = Info, prefix = ''None'', ostream = None\<rparr>,
          \<lparr>minimum = Info,
           written = [(Deno_stdout,
             ''Wed, 01 Jan 2020 00:00:00 GMT : ('' @ [CHR 0x1B] @ ''[94mInfo@None''
               @ [CHR 0x1B] @ ''[39m) '' @ [CHR 0xC3, CHR 0x82, CHR 0xC2, CHR 0xBB]
               @ '' ready'' @ [CHR 0x0A])]\<rparr>)"
  by (simp add: spec_effective_level_def example_defs)

subsection \<open>Construction and frame\<close>

text \<open>
  C8. A \<^verbatim>\<open>Logger\<close> constructed with no arguments has level Info, prefix \<^verbatim>\<open>None\<close> and
  no sink override; a constructor call assigns the three fields and leaves the world as
  it was; \<^verbatim>\<open>Logger.minimum\<close> starts as Trace.
\<close>

theorem constructor_defaults:
  "constructor None None None w = (\<lparr>level = Info, prefix = ''None'', ostream = None\<rparr>, w)
     \<and> constructor (Some lv) (Some pf) os w = (\<lparr>level = lv, prefix = pf, ostream = os\<rparr>, w)
     \<and> snd (constructor lv' pf' os' w) = w
     \<and> minimum initial_World = Trace"
  by (simp add: constructor_def initial_World_def)

text \<open>
  C9. \<^verbatim>\<open>log\<close> and the wrappers \<^verbatim>\<open>trace\<close>, \<^verbatim>\<open>info\<close>, \<^verbatim>\<open>warn\<close>, \<^verbatim>\<open>error\<close>,
  \<^verbatim>\<open>fatal\<close> return the instance they were called on and a world with the same global
  minimum; the level setter stores the new level and leaves the prefix, the sink override
  and the world as they were.
\<close>

theorem logging_frame:
  "fst (snd (log rt m l this w)) = this
     \<and> minimum (snd (snd (log rt m l this w))) = minimum w
     \<and> fst (snd (trace rt m this w)) = this
     \<and> minimum (snd (snd (trace rt m this w))) = minimum w
     \<and> fst (snd (info rt m this w)) = this
     \<and> minimum (snd (snd (info rt m this w))) = minimum w
     \<and> fst (snd (warn rt m this w)) = this
     \<and> minimum (snd (snd (warn rt m this w))) = minimum w
     \<and> fst (snd (error rt m this w)) = this
     \<and> minimum (snd (snd (error rt m this w))) = minimum w
     \<and> fst (snd (fatal rt m this w)) = this
     \<and> minimum (snd (snd (fatal rt m this w))) = minimum w
     \<and> level (fst (set_level l' this w)) = l'
     \<and> prefix (fst (set_level l' this w)) = prefix this
     \<and> ostream (fst (set_level l' this w)) = ostream this
     \<and> snd (set_level l' this w) = w"
  by (simp add: log_frame trace_def info_def warn_def error_def fatal_def set_level_def)

subsection \<open>Level resolution\<close>

text \<open>
  An override other than 0 is the level of the call; the override 0, which is
  \<^verbatim>\<open>LoggerLevel.Trace\<close>, is replaced by the level of the instance.
\<close>

lemma effective_level_override:
  "v \<noteq> 0 \<Longrightarrow> effective_level this (Some v) = v"
  by (simp add: effective_level_def)

lemma effective_level_Trace:
  "effective_level this (Some Trace) = level this"
  by (simp add: effective_level_def Trace_def)

text \<open>
  C2. The specification: a level override, when given, is the effective level; a logger
  with level Warn under the global minimum Info, called as \<^verbatim>\<open>log("x", Trace)\<close>,
  writes nothing. The code at that input: \<^verbatim>\<open>!l\<close> holds for Trace, the level becomes Warn, and
  one line tagged \<^verbatim>\<open>Warn@net\<close> goes to the standard output.
\<close>

theorem log_Trace_override_uses_instance_level:
  "effective_level \<lparr>level = Warn, prefix = ''net'', ostream = None\<rparr> (Some Trace) = Warn
     \<and> log example_Runtime ''x'' (Some Trace)
         \<lparr>level = Warn, prefix = ''net'', ostream = None\<rparr> (World_with_minimum Info)
       = (Inr (), \<lparr>level = Warn, prefix = ''net'', ostream = None\<rparr>,
          \<lparr>minimum = Info,
           written = [(Deno_stdout,
             ''Wed, 01 Jan 2020 00:00:00 GMT : ('' @ [CHR 0x1B] @ ''[33mWarn@net''
               @ [CHR 0x1B] @ ''[39m) '' @ [CHR 0xC3, CHR 0x82, CHR 0xC2, CHR 0xBB]
               @ '' x'' @ [CHR 0x0A])]\<rparr>)"
  by (simp add: example_defs)

text \<open>
  C3. The specification: a message is emitted if and only if the explicit override, or without
  one the level of the instance, is at least the global minimum. The code at
  \<^verbatim>\<open>trace("boot")\<close> on a logger of level Error under the global minimum Warn: the
  override Trace is below the minimum, and a line is written to the standard error.
\<close>

theorem trace_emitted_below_minimum:
  "Trace < minimum (World_with_minimum Warn)
     \<and> written (snd (snd (trace example_Runtime ''boot''
          \<lparr>level = Error, prefix = ''db'', ostream = None\<rparr> (World_with_minimum Warn))))
       = [(Deno_stderr,
           ''Wed, 01 Jan 2020 00:00:00 GMT : ('' @ [CHR 0x1B] @ ''[31mError@db''
             @ [CHR 0x1B] @ ''[39m) '' @ [CHR 0xC3, CHR 0x82, CHR 0xC2, CHR 0xBB]
             @ '' boot'' @ [CHR 0x0A])]"
  by (simp add: trace_def example_defs)

subsection \<open>Sink selection\<close>

text \<open>
  C1. The specification: a logger constructed with a sink override writes every line that is not
  suppressed to that sink and never to the standard streams. The code at a logger whose
  \<^verbatim>\<open>_ostream\<close> is resource 3: the assignment of line 142 is overwritten by the
  \<^verbatim>\<open>if\<close>/\<^verbatim>\<open>else\<close> that follows, and the line goes to the standard output.
\<close>

theorem log_overwrites_ostream:
  "log example_Runtime ''x'' None
       \<lparr>level = Info, prefix = ''None'', ostream = Some (Resource 3)\<rparr> initial_World
     = (Inr (), \<lparr>level = Info, prefix = ''None'', ostream = Some (Resource 3)\<rparr>,
        \<lparr>minimum = Trace,
         written = [(Deno_stdout,
           ''Wed, 01 Jan 2020 00:00:00 GMT : ('' @ [CHR 0x1B] @ ''[94mInfo@None''
             @ [CHR 0x1B] @ ''[39m) '' @ [CHR 0xC3, CHR 0x82, CHR 0xC2, CHR 0xBB]
             @ '' x'' @ [CHR 0x0A])]\<rparr>)"
  by (simp add: example_defs)

text \<open>
  For the level that lines 127 to 129 resolve, the second statement of lines 141 to 147
  chooses the standard error for Error and Fatal and the standard output for Trace, Info
  and Warn.
\<close>

lemma log_sink_by_resolved_level:
  assumes "\<not> minimum w > effective_level this l"
  shows "(let e = effective_level this l; line = format_line rt this e m in
          (e = Error \<or> e = Fatal \<longrightarrow>
             log rt m l this w
               = (fst (writer_write rt Deno_stderr line w), this,
                  snd (writer_write rt Deno_stderr line w)))
          \<and> (e = Trace \<or> e = Info \<or> e = Warn \<longrightarrow>
             log rt m l this w
               = (fst (writer_write rt Deno_stdout line w), this,
                  snd (writer_write rt Deno_stdout line w))))"
  using assms
  by (auto simp: Let_def log_not_suppressed select_writer_by_level LoggerLevel_defs)

text \<open>
  C4. The specification: on an instance without a sink override, a call that is not
  suppressed writes to the standard output when its effective level, the override if one
  is given, is Trace, Info or Warn. The code at \<^verbatim>\<open>trace("up")\<close> on a logger of level
  Fatal without a sink override, under the global minimum Trace: the override is Trace,
  \<^verbatim>\<open>!l\<close> replaces it by Fatal, and the line, tagged \<^verbatim>\<open>Fatal@core\<close>, goes to the
  standard error.
\<close>

theorem trace_on_Fatal_logger_writes_to_stderr:
  "ostream \<lparr>level = Fatal, prefix = ''core'', ostream = None\<rparr> = None
     \<and> spec_effective_level \<lparr>level = Fatal, prefix = ''core'', ostream = None\<rparr> (Some Trace)
         = Trace
     \<and> trace example_Runtime ''up''
         \<lparr>level = Fatal, prefix = ''core'', ostream = None\<rparr> initial_World
       = (Inr (), \<lparr>level = Fatal, prefix = ''core'', ostream = None\<rparr>,
          \<lparr>minimum = Trace,
           written = [(Deno_stderr,
             ''Wed, 01 Jan 2020 00:00:00 GMT : ('' @ [CHR 0x1B] @ ''[91mFatal@core''
               @ [CHR 0x1B] @ ''[39m) '' @ [CHR 0xC3, CHR 0x82, CHR 0xC2, CHR 0xBB]
               @ '' up'' @ [CHR 0x0A])]\<rparr>)"
  by (simp add: trace_def spec_effective_level_def example_defs)

subsection \<open>Colours\<close>

text \<open>
  C7. \<^verbatim>\<open>logger_level_color\<close> gives green for Trace, bright blue for Info, yellow for
  Warn, red for Error, bright red for Fatal and white for every other level; a call whose
  level is such another value and is not below the global minimum is formatted, with the
  name \<^verbatim>\<open>undefined\<close> and the colour white, and written to the standard output, and it
  succeeds when that sink accepts the write.
\<close>

theorem logger_level_color_total:
  "logger_level_color Trace = green
     \<and> logger_level_color Info = brightBlue
     \<and> logger_level_color Warn = yellow
     \<and> logger_level_color Error = red
     \<and> logger_level_color Fatal = brightRed
     \<and> (l \<notin> {Trace, Info, Warn, Error, Fatal} \<longrightarrow>
          logger_level_color l = white
          \<and> (effective_level this arg = l \<and> \<not> minimum w > l \<and> accepts rt Deno_stdout \<longrightarrow>
               log rt m arg this w
                 = (Inr (), this,
                    w\<lparr>written := written w @
                        [(Deno_stdout,
                          utc_now rt @ '' : (''
                            @ Colors rt white (''undefined@'' @ prefix this)
                            @ closing_separator @ m @ [CHR 0x0A])]\<rparr>)))"
proof -
  have known: "logger_level_color Trace = green" "logger_level_color Info = brightBlue"
    "logger_level_color Warn = yellow" "logger_level_color Error = red"
    "logger_level_color Fatal = brightRed"
    by (simp_all add: logger_level_color_def LoggerLevel_defs)
  have other: "logger_level_color l = white" "LoggerLevel_name l = ''undefined''"
    "select_writer this l = Deno_stdout"
    if "l \<notin> {Trace, Info, Warn, Error, Fatal}"
    using that
    by (simp_all add: logger_level_color_def LoggerLevel_name_def select_writer_by_level)
  show ?thesis
    using known other
    by (auto simp: log_def Let_def writer_write_def format_line_def get_prefix_def)
qed

theorem logger_level_color_total_witness:
  "(7::int) \<notin> {Trace, Info, Warn, Error, Fatal}
     \<and> logger_level_color 7 = white
     \<and> log example_Runtime ''x'' (Some 7)
         \<lparr>level = Warn, prefix = ''net'', ostream = None\<rparr> (World_with_minimum Info)
       = (Inr (), \<lparr>level = Warn, prefix = ''net'', ostream = None\<rparr>,
          \<lparr>minimum = Info,
           written = [(Deno_stdout,
             ''Wed, 01 Jan 2020 00:00:00 GMT : ('' @ [CHR 0x1B] @ ''[37mundefined@net''
               @ [CHR 0x1B] @ ''[39m) '' @ [CHR 0xC3, CHR 0x82, CHR 0xC2, CHR 0xBB]
               @ '' x'' @ [CHR 0x0A])]\<rparr>)"
  using logger_level_color_total
      [where l = 7 and this = "\<lparr>level = Warn, prefix = ''net'', ostream = None\<rparr>"
         and arg = "Some 7" and w = "World_with_minimum Info" and rt = example_Runtime
         and m = "''x''"]
  by (simp add: effective_level_def World_with_minimum_def initial_World_def
        LoggerLevel_defs example_Runtime_def ansi_Colors_def closing_separator_def)

subsection \<open>What the decision depends on\<close>

text \<open>
  Two calls under the same global minimum for which lines 127 to 129 resolve the same
  level are both the silent no-op or neither is, whatever their messages, prefixes, sink
  overrides and runtimes; when the sinks of the two runtimes accept the same writes, both
  calls add a line to the output or neither does.
\<close>

lemma log_decision_by_resolved_level:
  assumes "minimum w1 = minimum w2"
    and "effective_level this1 l1 = effective_level this2 l2"
  shows "((log rt1 m1 l1 this1 w1 = (Inr (), this1, w1))
            = (log rt2 m2 l2 this2 w2 = (Inr (), this2, w2)))
       \<and> (accepts rt1 = accepts rt2 \<longrightarrow>
            (written (snd (snd (log rt1 m1 l1 this1 w1))) = written w1)
              = (written (snd (snd (log rt2 m2 l2 this2 w2))) = written w2))"
  using assms by (simp add: log_noop_iff log_written select_writer_by_level)

text \<open>
  C10. The specification: whether a call emits or is suppressed depends only on its
  effective level, the override if one is given, and on the global minimum. The code at
  two calls \<^verbatim>\<open>log("x", Trace)\<close> under the global minimum Error, one on a logger of
  level Fatal and one on a logger of level Warn: the effective level of both is the
  override Trace and the minimum is the same, and yet the first writes a line and the
  second is suppressed, because \<^verbatim>\<open>!l\<close> replaces the override by the level of the
  instance.
\<close>

theorem Trace_override_decision_varies_with_instance:
  "spec_effective_level \<lparr>level = Fatal, prefix = ''a'', ostream = None\<rparr> (Some Trace)
       = spec_effective_level \<lparr>level = Warn, prefix = ''b'', ostream = None\<rparr> (Some Trace)
     \<and> log example_Runtime ''x'' (Some Trace)
         \<lparr>level = Fatal, prefix = ''a'', ostream = None\<rparr> (World_with_minimum Error)
       = (Inr (), \<lparr>level = Fatal, prefix = ''a'', ostream = None\<rparr>,
          \<lparr>minimum = Error,
           written = [(Deno_stderr,
             ''Wed, 01 Jan 2020 00:00:00 GMT : ('' @ [CHR 0x1B] @ ''[91mFatal@a''
               @ [CHR 0x1B] @ ''[39m) '' @ [CHR 0xC3, CHR 0x82, CHR 0xC2, CHR 0xBB]
               @ '' x'' @ [CHR 0x0A])]\<rparr>)
     \<and> log example_Runtime ''x'' (Some Trace)
         \<lparr>level = Warn, prefix = ''b'', ostream = None\<rparr> (World_with_minimum Error)
       = (Inr (), \<lparr>level = Warn, prefix = ''b'', ostream = None\<rparr>, World_with_minimum Error)"
  by (simp add: spec_effective_level_def example_defs)

subsection \<open>The line and its round trip\<close>




text \<open>
  Without colour, two different pairs of prefix and message give the same line, so no
  reader of whatever design returns the prefix and the message of every line.
\<close>

lemma format_line_not_injective:
  "format_line uncoloured_Runtime
       \<lparr>level = Info, prefix = ''a'' @ closing_separator @ ''b'', ostream = None\<rparr> Info ''c''
     = format_line uncoloured_Runtime
         \<lparr>level = Info, prefix = ''a'', ostream = None\<rparr> Info
         (''b'' @ closing_separator @ ''c'')"
  by (simp add: uncoloured_Runtime_def format_line_def get_prefix_def)




end
